theory Spec2Isabelle
  imports Main
begin

section \<open>Python strings\<close>

text \<open>
  A Python \<^verbatim>\<open>str\<close> is a sequence of Unicode code points, and \<^verbatim>\<open>len\<close> counts code
  points. A string is therefore a list of code points (natural numbers), not a list of
  bytes. File contents are bytes.
\<close>

type_synonym pystr = "nat list"

type_synonym bytes = "string"

definition lit :: "string \<Rightarrow> pystr" where
  "lit s = map of_char s"

text \<open>
  \<^verbatim>\<open>str.isspace\<close> for one code point: the code points CPython treats as whitespace
  (U+0009..U+000D, U+001C..U+0020, U+0085, U+00A0, U+1680, U+2000..U+200A, U+2028, U+2029,
  U+202F, U+205F, U+3000).
\<close>

definition isspace :: "nat \<Rightarrow> bool" where
  "isspace c \<longleftrightarrow>
     (9 \<le> c \<and> c \<le> 13) \<or> (28 \<le> c \<and> c \<le> 32) \<or> c = 133 \<or> c = 160 \<or> c = 5760 \<or>
     (8192 \<le> c \<and> c \<le> 8202) \<or> c = 8232 \<or> c = 8233 \<or> c = 8239 \<or> c = 8287 \<or> c = 12288"

text \<open>\<^verbatim>\<open>s.strip()\<close>: leading and trailing whitespace removed.\<close>

definition strip :: "pystr \<Rightarrow> pystr" where
  "strip s = rev (dropWhile isspace (rev (dropWhile isspace s)))"

text \<open>\<^verbatim>\<open>s.startswith(p)\<close> and \<^verbatim>\<open>s.endswith(suf)\<close>.\<close>

definition startswith :: "pystr \<Rightarrow> pystr \<Rightarrow> bool" where
  "startswith s p \<longleftrightarrow> take (length p) s = p"

definition endswith :: "pystr \<Rightarrow> pystr \<Rightarrow> bool" where
  "endswith s suf \<longleftrightarrow> length suf \<le> length s \<and> drop (length s - length suf) s = suf"

text \<open>\<^verbatim>\<open>sub in s\<close>: \<open>sub\<close> occurs in \<open>s\<close> as a contiguous run, at any position.\<close>

fun str_in :: "pystr \<Rightarrow> pystr \<Rightarrow> bool" where
  "str_in sub [] = (sub = [])"
| "str_in sub (c # cs) = (startswith (c # cs) sub \<or> str_in sub cs)"

text \<open>
  \<^verbatim>\<open>os.path.join(a, b)\<close> on a POSIX system: an absolute \<open>b\<close> replaces \<open>a\<close>; otherwise the
  two are joined with one slash.
\<close>

definition path_join :: "pystr \<Rightarrow> pystr \<Rightarrow> pystr" where
  "path_join a b =
     (if startswith b (lit ''/'') then b
      else if a = [] \<or> endswith a (lit ''/'') then a @ b
      else a @ lit ''/'' @ b)"

section \<open>Exceptions and JSON values\<close>

text \<open>
  An exception is its class, as far as the \<^verbatim>\<open>except\<close> clauses of the program tell
  classes apart, and the text \<^verbatim>\<open>str(e)\<close>. Every class here is a subclass of
  \<^verbatim>\<open>Exception\<close>; subclasses of \<^verbatim>\<open>requests.exceptions.RequestException\<close> count as
  \<open>RequestException\<close>.
\<close>

datatype exn_class =
  RequestException | OSError | ValueError | AttributeError | TypeError | IndexError
  | KeyError | OtherException

datatype exn = Raised exn_class pystr

fun exn_class_of :: "exn \<Rightarrow> exn_class" where
  "exn_class_of (Raised c m) = c"

fun str_exn :: "exn \<Rightarrow> pystr" where
  "str_exn (Raised c m) = m"

text \<open>
  What \<^verbatim>\<open>r.json()\<close> can return: \<^verbatim>\<open>None\<close>, a bool, an int, a float, a str, a list or a
  dict with string keys. A dict is an association list read with \<open>map_of\<close>.
\<close>

datatype pyfloat = Finite int int | Infinite bool | NaN

datatype json =
  JNull | JBool bool | JInt int | JFloat pyfloat | JStr pystr | JArr "json list"
  | JObj "(pystr \<times> json) list"

text \<open>Truth value of a Python object in a condition.\<close>

fun truthy :: "json \<Rightarrow> bool" where
  "truthy JNull = False"
| "truthy (JBool b) = b"
| "truthy (JInt n) = (n \<noteq> 0)"
| "truthy (JFloat f) = (case f of Finite m ex \<Rightarrow> m \<noteq> 0 | Infinite s \<Rightarrow> True | NaN \<Rightarrow> True)"
| "truthy (JStr s) = (s \<noteq> [])"
| "truthy (JArr xs) = (xs \<noteq> [])"
| "truthy (JObj kvs) = (kvs \<noteq> [])"

text \<open>
  \<^verbatim>\<open>x.get(k, default)\<close>: only a dict has the method; on anything else the attribute
  lookup raises AttributeError.
\<close>

fun dict_get :: "json \<Rightarrow> pystr \<Rightarrow> json \<Rightarrow> exn_class + json" where
  "dict_get (JObj kvs) k dflt = (case map_of kvs k of None \<Rightarrow> Inr dflt | Some v \<Rightarrow> Inr v)"
| "dict_get x k dflt = Inl AttributeError"

text \<open>\<^verbatim>\<open>x[k]\<close> with a string key \<open>k\<close>.\<close>

fun getitem_str :: "json \<Rightarrow> pystr \<Rightarrow> exn_class + json" where
  "getitem_str (JObj kvs) k = (case map_of kvs k of None \<Rightarrow> Inl KeyError | Some v \<Rightarrow> Inr v)"
| "getitem_str x k = Inl TypeError"

text \<open>
  \<^verbatim>\<open>x[0]\<close>: the first element of a list, the first character of a string (a string of
  length one); IndexError when either is empty; KeyError on a dict, whose keys are
  strings; TypeError on the rest.
\<close>

fun getitem0 :: "json \<Rightarrow> exn_class + json" where
  "getitem0 (JArr []) = Inl IndexError"
| "getitem0 (JArr (v # vs)) = Inr v"
| "getitem0 (JStr []) = Inl IndexError"
| "getitem0 (JStr (c # cs)) = Inr (JStr [c])"
| "getitem0 (JObj kvs) = Inl KeyError"
| "getitem0 x = Inl TypeError"

text \<open>
  The elements a \<^verbatim>\<open>for\<close> loop visits: the items of a list, the characters of a string,
  the keys of a dict; TypeError on a value that is not iterable.
\<close>

fun py_iter :: "json \<Rightarrow> exn_class + json list" where
  "py_iter (JArr xs) = Inr xs"
| "py_iter (JStr s) = Inr (map (\<lambda>c. JStr [c]) s)"
| "py_iter (JObj kvs) = Inr (map (\<lambda>kv. JStr (fst kv)) kvs)"
| "py_iter x = Inl TypeError"

text \<open>
  The list comprehension \<^verbatim>\<open>[res.get('ParsedText', '') for res in ...]\<close>: elements are
  visited in order and the first exception ends the loop.
\<close>

fun parsed_texts :: "json list \<Rightarrow> exn_class + json list" where
  "parsed_texts [] = Inr []"
| "parsed_texts (res # rest) =
     (case dict_get res (lit ''ParsedText'') (JStr []) of
        Inl x \<Rightarrow> Inl x
      | Inr v \<Rightarrow> (case parsed_texts rest of Inl x \<Rightarrow> Inl x | Inr vs \<Rightarrow> Inr (v # vs)))"

text \<open>\<^verbatim>\<open>"".join(xs)\<close>: every item has to be a str, otherwise TypeError.\<close>

fun str_join :: "json list \<Rightarrow> exn_class + pystr" where
  "str_join [] = Inr []"
| "str_join (JStr s # rest) = (case str_join rest of Inl x \<Rightarrow> Inl x | Inr t \<Rightarrow> Inr (s @ t))"
| "str_join (x # rest) = Inl TypeError"

section \<open>The outside world\<close>

text \<open>
  What the program cannot decide itself is a field of the environment: the two API keys
  read from the process environment at start-up, and the behaviour of the libraries and
  remote services it calls. Theorems quantify over the environment, so they hold for
  every behaviour of the outside world.
\<close>

text \<open>
  \<^verbatim>\<open>file.save(filepath)\<close> either writes the upload to the path, or raises; when it
  raises it may have left nothing (\<open>None\<close>) or a partly written file at the path.
\<close>

datatype save_outcome = SaveOk | SaveRaises exn "bytes option"

text \<open>The form fields sent to OCR.space along with the file.\<close>

record ocr_payload =
  isOverlayRequired :: bool
  apikey :: pystr
  language :: pystr

record env =
  OCR_SPACE_API_KEY :: "pystr option"
  GEMINI_API_KEY :: "pystr option"
  save_behaviour :: "pystr \<Rightarrow> save_outcome"
  pdf_text :: "bytes \<Rightarrow> exn + pystr list"
  ocr_space :: "ocr_payload \<Rightarrow> bytes \<Rightarrow> exn + json"
  gemini :: "pystr \<Rightarrow> exn + pystr"
  interp_text :: "exn_class \<Rightarrow> pystr"
  py_str :: "json \<Rightarrow> pystr"

text \<open>
  \<^item> \<open>OCR_SPACE_API_KEY\<close>, \<open>GEMINI_API_KEY\<close>: the results of \<^verbatim>\<open>os.getenv\<close>, \<open>None\<close> when
    the variable is unset.
  \<^item> \<open>pdf_text\<close>: \<^verbatim>\<open>fitz.open\<close>, \<^verbatim>\<open>page.get_text()\<close> for each page and \<^verbatim>\<open>doc.close()\<close>
    on a file with the given bytes: the text of each page, or the exception one of them
    raises.
  \<^item> \<open>ocr_space\<close>: \<^verbatim>\<open>requests.post\<close>, \<^verbatim>\<open>r.raise_for_status()\<close> and \<^verbatim>\<open>r.json()\<close>: the
    decoded JSON body, or the exception one of them raises.
  \<^item> \<open>gemini\<close>: \<^verbatim>\<open>genai.GenerativeModel\<close>, \<^verbatim>\<open>model.generate_content(prompt)\<close> and
    \<^verbatim>\<open>response.text\<close>: the text, or the exception one of them raises.
  \<^item> \<open>interp_text\<close>: \<^verbatim>\<open>str(e)\<close> of an exception the interpreter itself raises.
  \<^item> \<open>py_str\<close>: \<^verbatim>\<open>str(v)\<close> of a JSON value that is not a string.
\<close>

text \<open>
  The file system: what is at a path is a regular file with its bytes or a directory;
  \<open>None\<close> when the path does not exist.
\<close>

datatype node = File bytes | Dir

type_synonym disk = "pystr \<rightharpoonup> node"

definition interp :: "env \<Rightarrow> exn_class + 'a \<Rightarrow> exn + 'a" where
  "interp e r = (case r of Inl c \<Rightarrow> Inl (Raised c (interp_text e c)) | Inr v \<Rightarrow> Inr v)"

text \<open>\<^verbatim>\<open>not KEY\<close> for the result of \<^verbatim>\<open>os.getenv\<close>: \<^verbatim>\<open>None\<close> and the empty string.\<close>

definition key_missing :: "pystr option \<Rightarrow> bool" where
  "key_missing k \<longleftrightarrow> (case k of None \<Rightarrow> True | Some s \<Rightarrow> s = [])"

text \<open>An f-string field \<^verbatim>\<open>{v}\<close>.\<close>

definition format_value :: "env \<Rightarrow> json \<Rightarrow> pystr" where
  "format_value e v = (case v of JStr s \<Rightarrow> s | _ \<Rightarrow> py_str e v)"

section \<open>ocr\_with\_ocrspace\<close>

definition OCR_MARKER :: pystr where
  "OCR_MARKER = lit ''OCR.space Error:''"

text \<open>Lines 42 to 46: the decoded response.\<close>

definition ocr_result :: "env \<Rightarrow> json \<Rightarrow> exn + pystr" where
  "ocr_result e result =
     (case interp e (dict_get result (lit ''IsErroredOnProcessing'') JNull) of
        Inl x \<Rightarrow> Inl x
      | Inr errored \<Rightarrow>
          if truthy errored then
            (case interp e (dict_get result (lit ''ErrorMessage'')
                     (JArr [JStr (lit ''Unknown error'')])) of
               Inl x \<Rightarrow> Inl x
             | Inr msgs \<Rightarrow>
                 (case interp e (getitem0 msgs) of
                    Inl x \<Rightarrow> Inl x
                  | Inr m \<Rightarrow> Inr (lit ''OCR.space Error: '' @ format_value e m)))
          else
            (case interp e (dict_get result (lit ''ParsedResults'') JNull) of
               Inl x \<Rightarrow> Inl x
             | Inr parsed \<Rightarrow>
                 if truthy parsed then
                   (case interp e (getitem_str result (lit ''ParsedResults'')) of
                      Inl x \<Rightarrow> Inl x
                    | Inr results \<Rightarrow>
                        (case interp e (py_iter results) of
                           Inl x \<Rightarrow> Inl x
                         | Inr ress \<Rightarrow>
                             (case interp e (parsed_texts ress) of
                                Inl x \<Rightarrow> Inl x
                              | Inr texts \<Rightarrow> interp e (str_join texts))))
                 else Inr (lit ''OCR.space Error: No text could be parsed.'')))"

text \<open>Lines 37 to 46: the body of the \<^verbatim>\<open>try\<close>.\<close>

definition ocr_try :: "env \<Rightarrow> pystr \<Rightarrow> disk \<Rightarrow> pystr \<Rightarrow> exn + pystr" where
  "ocr_try e key d file_path =
     (case d file_path of
        None \<Rightarrow> Inl (Raised OSError (interp_text e OSError))
      | Some Dir \<Rightarrow> Inl (Raised OSError (interp_text e OSError))
      | Some (File f) \<Rightarrow>
          (case ocr_space e \<lparr>isOverlayRequired = False, apikey = key, language = lit ''eng''\<rparr> f of
             Inl x \<Rightarrow> Inl x
           | Inr result \<Rightarrow> ocr_result e result))"

definition ocr_with_ocrspace :: "env \<Rightarrow> disk \<Rightarrow> pystr \<Rightarrow> pystr" where
  "ocr_with_ocrspace e d file_path =
     (case OCR_SPACE_API_KEY e of
        None \<Rightarrow> lit ''OCR.space Error: API key not found. Please create a .env file and add your OCR_SPACE_API_KEY.''
      | Some key \<Rightarrow>
          if key = [] then lit ''OCR.space Error: API key not found. Please create a .env file and add your OCR_SPACE_API_KEY.''
          else
            (case ocr_try e key d file_path of
               Inr s \<Rightarrow> s
             | Inl x \<Rightarrow>
                 if exn_class_of x = RequestException
                 then lit ''OCR.space Error: Network request failed. Details: '' @ str_exn x
                 else lit ''OCR.space Error: An unexpected error occurred. Details: '' @ str_exn x))"

section \<open>summarize\_with\_ai\<close>

definition GEMINI_MARKER :: pystr where
  "GEMINI_MARKER = lit ''Gemini Error:''"

definition prompt :: "pystr \<Rightarrow> pystr" where
  "prompt text =
     lit ''You are a specialized medical report analyst. From the provided medical report text, '' @
     lit ''extract ONLY the following information and present it in a clear, structured format. '' @
     lit ''you have to tell the patient like a human what the report is about (summary of the report it should be little precise.).\<newline>\<newline>'' @
     lit ''1. **Patient Details:** (List Name, Age, Gender, etc., if available).\<newline>'' @
     lit ''2. **Consultation Recommended:** (Based on the abnormal findings, suggest the type of specialist to consult, e.g., 'Cardiologist', 'Endocrinologist').\<newline>'' @
     lit ''3. **Abnormal Values:** (List any values that are outside the normal range. Clearly show the test name, the result, and the normal range,  with the values mention their general language names and what is the probem related to them).\<newline>'' @
     lit ''4. **Normal Values:** (After listing abnormal values, simply state: 'All other tested values are within the normal range.').\<newline>\<newline>'' @
     lit ''--- MEDICAL REPORT TEXT ---\<newline>'' @
     text"

definition summarize_with_ai :: "env \<Rightarrow> pystr \<Rightarrow> pystr" where
  "summarize_with_ai e text =
     (if key_missing (GEMINI_API_KEY e)
      then lit ''Gemini Error: API key not found. Please add GEMINI_API_KEY to your .env file.''
      else
        (case gemini e (prompt text) of
           Inr response_text \<Rightarrow> response_text
         | Inl x \<Rightarrow>
             lit ''Gemini Error: An error occurred while generating the summary. Details: '' @ str_exn x))"

section \<open>upload\_file\<close>

text \<open>
  An uploaded file (werkzeug's \<^verbatim>\<open>FileStorage\<close>) is its file name and its bytes;
  \<^verbatim>\<open>request.files\<close> maps form field names to uploads.
\<close>

record upload =
  filename :: pystr
  content :: bytes

record request =
  files :: "pystr \<rightharpoonup> upload"

text \<open>The truth value of a \<^verbatim>\<open>FileStorage\<close> is that of its file name.\<close>

definition file_truthy :: "upload \<Rightarrow> bool" where
  "file_truthy file \<longleftrightarrow> filename file \<noteq> []"

text \<open>
  What a request does besides answering: the calls to the PDF library, the console, the
  OCR function and the summarizer, in the order they happen.
\<close>

datatype event = Extract pystr | Print pystr | Ocr pystr | Summarize pystr

text \<open>
  The result of handling one request: what leaves the handler, the file system afterwards,
  and the calls made. The handler either returns the dict it gave to \<^verbatim>\<open>jsonify\<close>
  (\<open>Inr\<close>), or an exception escapes from it (\<open>Inl\<close>) and the framework answers with its
  own HTTP 500 page, which is not JSON.
\<close>

record outcome =
  response :: "exn + json"
  disk_after :: disk
  calls :: "event list"

definition UPLOAD_FOLDER :: pystr where
  "UPLOAD_FOLDER = lit ''uploads''"

definition jsonify :: "(pystr \<times> pystr) list \<Rightarrow> json" where
  "jsonify kvs = JObj (map (\<lambda>kv. (fst kv, JStr (snd kv))) kvs)"

text \<open>\<^verbatim>\<open>fitz.open(filepath)\<close> and the page loop: the library reads the file at the path.\<close>

definition fitz_text :: "env \<Rightarrow> disk \<Rightarrow> pystr \<Rightarrow> exn + pystr list" where
  "fitz_text e d filepath =
     (case d filepath of
        None \<Rightarrow> Inl (Raised OtherException (interp_text e OtherException))
      | Some Dir \<Rightarrow> Inl (Raised OtherException (interp_text e OtherException))
      | Some (File f) \<Rightarrow> pdf_text e f)"

text \<open>Lines 118 to 125: from the empty-text check to the successful answer.\<close>

definition summarize_step :: "env \<Rightarrow> pystr \<Rightarrow> json \<times> event list" where
  "summarize_step e full_text =
     (if strip full_text = []
      then (jsonify [(lit ''error'', lit ''Could not extract any text from this PDF.'')], [])
      else
        (let summary = summarize_with_ai e full_text in
         if str_in GEMINI_MARKER summary
         then (jsonify [(lit ''error'', summary)], [Summarize full_text])
         else (jsonify [(lit ''extracted_text'', full_text), (lit ''summary'', summary)],
               [Summarize full_text])))"

text \<open>
  Lines 105 to 125: the body of the \<^verbatim>\<open>try\<close>. It returns a response or raises, and
  leaves a file system and the calls made so far. The outcome of \<^verbatim>\<open>file.save\<close> is the
  environment's. A save that raises and leaves nothing keeps what was at the path, a
  directory included: that is what saving onto the path of a directory does.
\<close>

definition process :: "env \<Rightarrow> upload \<Rightarrow> pystr \<Rightarrow> disk \<Rightarrow> (exn + json) \<times> disk \<times> event list" where
  "process e file filepath d =
     (case save_behaviour e filepath of
        SaveRaises x left \<Rightarrow>
          (Inl x, (case left of None \<Rightarrow> d | Some part \<Rightarrow> d(filepath \<mapsto> File part)), [])
      | SaveOk \<Rightarrow>
          (let d1 = d(filepath \<mapsto> File (content file)) in
           case fitz_text e d1 filepath of
             Inl x \<Rightarrow> (Inl x, d1, [Extract filepath])
           | Inr pages \<Rightarrow>
               (let full_text = concat pages in
                if length (strip full_text) < 100 then
                  (let ocr_text = ocr_with_ocrspace e d1 filepath;
                       before = [Extract filepath,
                                 Print (lit ''Detected a scanned PDF. Attempting OCR...''),
                                 Ocr filepath]
                   in if str_in OCR_MARKER ocr_text
                      then (Inr (jsonify [(lit ''error'', ocr_text)]), d1, before)
                      else (case summarize_step e ocr_text of
                              (resp, cs) \<Rightarrow> (Inr resp, d1, before @ cs)))
                else (case summarize_step e full_text of
                        (resp, cs) \<Rightarrow> (Inr resp, d1, [Extract filepath] @ cs)))))"

text \<open>
  \<^verbatim>\<open>os.remove(path)\<close>: a regular file is unlinked; on a directory, and on a path that does
  not exist, the call raises an OSError and changes nothing.
\<close>

definition os_remove :: "env \<Rightarrow> pystr \<Rightarrow> disk \<Rightarrow> exn + disk" where
  "os_remove e path d =
     (case d path of
        None \<Rightarrow> Inl (Raised OSError (interp_text e OSError))
      | Some Dir \<Rightarrow> Inl (Raised OSError (interp_text e OSError))
      | Some (File f) \<Rightarrow> Inr (d(path := None)))"

text \<open>
  The \<^verbatim>\<open>finally\<close> clause, lines 131 and 132. \<^verbatim>\<open>os.path.exists\<close> is true of files and
  of directories. The clause has no handler of its own: an exception of \<^verbatim>\<open>os.remove\<close>
  leaves the clause.
\<close>

definition cleanup :: "env \<Rightarrow> pystr \<Rightarrow> disk \<Rightarrow> exn + disk" where
  "cleanup e filepath d =
     (if filepath \<noteq> [] \<and> d filepath \<noteq> None then os_remove e filepath d else Inr d)"

text \<open>
  Lines 94 to 133. An exception that leaves the \<^verbatim>\<open>finally\<close> clause replaces the
  \<^verbatim>\<open>return\<close> that was pending and leaves the handler.
\<close>

definition upload_file :: "env \<Rightarrow> request \<Rightarrow> disk \<Rightarrow> outcome" where
  "upload_file e req d =
     (case files req (lit ''file'') of
        None \<Rightarrow>
          \<lparr>response = Inr (jsonify [(lit ''error'', lit ''No file part'')]), disk_after = d,
           calls = []\<rparr>
      | Some file \<Rightarrow>
          if filename file = [] then
            \<lparr>response = Inr (jsonify [(lit ''error'', lit ''No selected file'')]), disk_after = d,
             calls = []\<rparr>
          else if file_truthy file \<and> endswith (filename file) (lit ''.pdf'') then
            (let filepath = path_join UPLOAD_FOLDER (filename file) in
             case process e file filepath d of
               (r, d1, cs) \<Rightarrow>
                 (case cleanup e filepath d1 of
                    Inl x \<Rightarrow> \<lparr>response = Inl x, disk_after = d1, calls = cs\<rparr>
                  | Inr d2 \<Rightarrow>
                      \<lparr>response = Inr (case r of Inr resp \<Rightarrow> resp
                                       | Inl x \<Rightarrow> jsonify [(lit ''error'', str_exn x)]),
                       disk_after = d2,
                       calls = cs\<rparr>))
          else
            \<lparr>response =
               Inr (jsonify [(lit ''error'', lit ''Invalid file type. Please upload a PDF.'')]),
             disk_after = d, calls = []\<rparr>)"

section \<open>Stating the properties\<close>

text \<open>
  Lower-casing of the ASCII letters, used only to say what an upper-case or mixed-case
  spelling of the extension \<^verbatim>\<open>.pdf\<close> is.
\<close>

definition ascii_lower :: "nat \<Rightarrow> nat" where
  "ascii_lower c = (if 65 \<le> c \<and> c \<le> 90 then c + 32 else c)"

section \<open>Example inputs\<close>

text \<open>
  A well-behaved outside world, a text PDF of 107 characters and a few requests, on which
  the statements below are evaluated; and a file system where the upload folder already
  holds a directory named \<^verbatim>\<open>report.pdf\<close>, with a save onto it that raises and leaves it.
\<close>

definition demo_report :: pystr where
  "demo_report = lit ''Patient Name: John Doe Age: 45 Gender: Male Test: Hemoglobin Result: 10.2 g/dL Normal range: 13.0-17.0 g/dL''"

definition demo_env :: env where
  "demo_env =
     \<lparr>OCR_SPACE_API_KEY = Some (lit ''K1''),
      GEMINI_API_KEY = Some (lit ''K2''),
      save_behaviour = (\<lambda>p. SaveOk),
      pdf_text = (\<lambda>f. Inr [demo_report]),
      ocr_space = (\<lambda>pl f. Inr (JObj [(lit ''ParsedResults'',
                      JArr [JObj [(lit ''ParsedText'', JStr demo_report)]])])),
      gemini = (\<lambda>p. Inr (lit ''Hemoglobin is low.'')),
      interp_text = (\<lambda>c. lit ''error''),
      py_str = (\<lambda>v. lit ''value'')\<rparr>"



definition demo_disk :: disk where
  "demo_disk = Map.empty"

definition demo_txt_upload :: upload where
  "demo_txt_upload = \<lparr>filename = lit ''notes.txt'', content = ''hello''\<rparr>"

definition demo_txt_request :: request where
  "demo_txt_request = \<lparr>files = [lit ''file'' \<mapsto> demo_txt_upload]\<rparr>"

definition demo_upper_upload :: upload where
  "demo_upper_upload = \<lparr>filename = lit ''report.PDF'', content = ''%PDF-1.4''\<rparr>"

definition demo_upper_request :: request where
  "demo_upper_request = \<lparr>files = [lit ''file'' \<mapsto> demo_upper_upload]\<rparr>"



definition demo_saved_disk :: disk where
  "demo_saved_disk = [lit ''uploads/report.pdf'' \<mapsto> File ''%PDF-1.4'']"

section \<open>Auxiliary facts\<close>





lemma cleanup_absent: "d p = None \<Longrightarrow> cleanup e p d = Inr d"
  by (simp add: cleanup_def)























lemma startswith_extend: "startswith a m \<Longrightarrow> startswith (a @ x) m"
  unfolding startswith_def by (metis append_eq_conv_conj append.assoc)

lemma str_join_Inr: "str_join vs = Inr s \<Longrightarrow> \<exists>texts. vs = map JStr texts \<and> s = concat texts"
proof (induction vs arbitrary: s rule: str_join.induct)
  case 1
  then show ?case by simp
next
  case (2 t rest)
  then obtain u where u: "str_join rest = Inr u" "s = t @ u"
    by (auto split: sum.splits)
  with 2 obtain texts where "rest = map JStr texts" "u = concat texts" by blast
  with u have "JStr t # rest = map JStr (t # texts) \<and> s = concat (t # texts)" by simp
  then show ?case by (rule exI)
qed simp_all

lemma str_join_map: "str_join (map JStr texts) = Inr (concat texts)"
  by (induction texts) simp_all

lemma parsed_texts_chars: "s \<noteq> [] \<Longrightarrow> parsed_texts (map (\<lambda>c. JStr [c]) s) = Inl AttributeError"
  by (cases s) simp_all

lemma parsed_texts_keys:
  "kvs \<noteq> [] \<Longrightarrow> parsed_texts (map (\<lambda>kv. JStr (fst kv)) kvs) = Inl AttributeError"
  by (cases kvs) simp_all

lemma ocr_messages_marked:
  "startswith (lit ''OCR.space Error: API key not found. Please create a .env file and add your OCR_SPACE_API_KEY.'') OCR_MARKER"
  "startswith (lit ''OCR.space Error: '') OCR_MARKER"
  "startswith (lit ''OCR.space Error: No text could be parsed.'') OCR_MARKER"
  "startswith (lit ''OCR.space Error: Network request failed. Details: '') OCR_MARKER"
  "startswith (lit ''OCR.space Error: An unexpected error occurred. Details: '') OCR_MARKER"
  by (simp_all add: startswith_def OCR_MARKER_def lit_def)

lemma gemini_messages_marked:
  "startswith (lit ''Gemini Error: API key not found. Please add GEMINI_API_KEY to your .env file.'') GEMINI_MARKER"
  "startswith (lit ''Gemini Error: An error occurred while generating the summary. Details: '') GEMINI_MARKER"
  by (simp_all add: startswith_def GEMINI_MARKER_def lit_def)

lemma ocr_result_errored:
  assumes "dict_get result (lit ''IsErroredOnProcessing'') JNull = Inr v" and "truthy v"
    and "ocr_result e result = Inr s"
  shows "startswith s OCR_MARKER"
  using assms
  by (auto simp: ocr_result_def interp_def ocr_messages_marked startswith_extend
      split: sum.splits)

lemma ocr_result_parsed:
  assumes "dict_get result (lit ''IsErroredOnProcessing'') JNull = Inr v" and "\<not> truthy v"
    and "ocr_result e result = Inr s"
  shows "startswith s OCR_MARKER \<or>
         (\<exists>kvs ress texts. result = JObj kvs \<and>
            map_of kvs (lit ''ParsedResults'') = Some (JArr ress) \<and> ress \<noteq> [] \<and>
            parsed_texts ress = Inr (map JStr texts) \<and> s = concat texts)"
proof (cases result)
  case (JObj kvs)
  show ?thesis
  proof (cases "map_of kvs (lit ''ParsedResults'')")
    case None
    with assms JObj show ?thesis
      by (auto simp: ocr_result_def interp_def ocr_messages_marked)
  next
    case (Some parsed)
    show ?thesis
    proof (cases "truthy parsed")
      case False
      with assms JObj Some show ?thesis
        by (auto simp: ocr_result_def interp_def ocr_messages_marked)
    next
      case True
      with assms JObj Some obtain ress vs where
        r: "py_iter parsed = Inr ress" "parsed_texts ress = Inr vs" "str_join vs = Inr s"
        by (auto simp: ocr_result_def interp_def split: sum.splits)
      from r(3) obtain texts where t: "vs = map JStr texts" "s = concat texts"
        using str_join_Inr by blast
      from True r(1,2) have "parsed = JArr ress \<and> ress \<noteq> []"
        by (cases parsed) (auto simp: parsed_texts_chars parsed_texts_keys)
      with JObj Some r t show ?thesis by blast
    qed
  qed
qed (use assms in simp_all)

lemma ocr_result_success:
  assumes "dict_get (JObj kvs) (lit ''IsErroredOnProcessing'') JNull = Inr v" and "\<not> truthy v"
    and "map_of kvs (lit ''ParsedResults'') = Some (JArr ress)" and "ress \<noteq> []"
    and "parsed_texts ress = Inr (map JStr texts)"
  shows "ocr_result e (JObj kvs) = Inr (concat texts)"
  using assms by (simp add: ocr_result_def interp_def str_join_map)

lemma ocr_raises_marked:
  assumes "OCR_SPACE_API_KEY e = Some key" and "key \<noteq> []" and "ocr_try e key d p = Inl x"
  shows "startswith (ocr_with_ocrspace e d p) OCR_MARKER"
  using assms by (simp add: ocr_with_ocrspace_def ocr_messages_marked startswith_extend)

lemma ocr_key_missing_marked:
  assumes "key_missing (OCR_SPACE_API_KEY e)"
  shows "startswith (ocr_with_ocrspace e d p) OCR_MARKER"
  using assms
  by (auto simp: ocr_with_ocrspace_def key_missing_def ocr_messages_marked split: option.splits)

lemma ocr_dichotomy:
  "startswith (ocr_with_ocrspace e d p) OCR_MARKER \<or>
   (\<exists>key f kvs v ress texts.
      OCR_SPACE_API_KEY e = Some key \<and> key \<noteq> [] \<and> d p = Some (File f) \<and>
      ocr_space e \<lparr>isOverlayRequired = False, apikey = key, language = lit ''eng''\<rparr> f
        = Inr (JObj kvs) \<and>
      dict_get (JObj kvs) (lit ''IsErroredOnProcessing'') JNull = Inr v \<and> \<not> truthy v \<and>
      map_of kvs (lit ''ParsedResults'') = Some (JArr ress) \<and> ress \<noteq> [] \<and>
      parsed_texts ress = Inr (map JStr texts) \<and>
      ocr_with_ocrspace e d p = concat texts)"
proof (cases "key_missing (OCR_SPACE_API_KEY e)")
  case True
  then show ?thesis by (simp add: ocr_key_missing_marked)
next
  case False
  then obtain key where key: "OCR_SPACE_API_KEY e = Some key" "key \<noteq> []"
    by (auto simp: key_missing_def split: option.splits)
  show ?thesis
  proof (cases "ocr_try e key d p")
    case (Inl x)
    with key show ?thesis by (simp add: ocr_raises_marked)
  next
    case (Inr s)
    with key have res: "ocr_with_ocrspace e d p = s"
      by (simp add: ocr_with_ocrspace_def)
    from Inr obtain f result where
      f: "d p = Some (File f)"
      and r: "ocr_space e \<lparr>isOverlayRequired = False, apikey = key, language = lit ''eng''\<rparr> f
                = Inr result"
      and o: "ocr_result e result = Inr s"
      by (auto simp: ocr_try_def split: option.splits node.splits sum.splits)
    from o obtain v where v: "dict_get result (lit ''IsErroredOnProcessing'') JNull = Inr v"
      by (auto simp: ocr_result_def interp_def split: sum.splits)
    show ?thesis
    proof (cases "truthy v")
      case True
      with v o res show ?thesis using ocr_result_errored by blast
    next
      case False
      from ocr_result_parsed [OF v False o] show ?thesis
      proof
        assume "startswith s OCR_MARKER"
        with res show ?thesis by simp
      next
        assume "\<exists>kvs ress texts. result = JObj kvs \<and>
            map_of kvs (lit ''ParsedResults'') = Some (JArr ress) \<and> ress \<noteq> [] \<and>
            parsed_texts ress = Inr (map JStr texts) \<and> s = concat texts"
        then obtain kvs ress texts where "result = JObj kvs"
          "map_of kvs (lit ''ParsedResults'') = Some (JArr ress)" "ress \<noteq> []"
          "parsed_texts ress = Inr (map JStr texts)" "s = concat texts"
          by blast
        with key f r v False res show ?thesis by blast
      qed
    qed
  qed
qed

lemma ocr_errored_marked:
  assumes "OCR_SPACE_API_KEY e = Some key" and "key \<noteq> []" and "d p = Some (File f)"
    and "ocr_space e \<lparr>isOverlayRequired = False, apikey = key, language = lit ''eng''\<rparr> f
           = Inr result"
    and "dict_get result (lit ''IsErroredOnProcessing'') JNull = Inr v" and "truthy v"
  shows "startswith (ocr_with_ocrspace e d p) OCR_MARKER"
proof (cases "ocr_try e key d p")
  case (Inl x)
  with assms show ?thesis by (simp add: ocr_raises_marked)
next
  case (Inr s)
  with assms have "ocr_result e result = Inr s" by (simp add: ocr_try_def)
  with assms have "startswith s OCR_MARKER" using ocr_result_errored by blast
  with assms Inr show ?thesis by (simp add: ocr_with_ocrspace_def)
qed

lemma ocr_success_text:
  assumes "OCR_SPACE_API_KEY e = Some key" and "key \<noteq> []" and "d p = Some (File f)"
    and "ocr_space e \<lparr>isOverlayRequired = False, apikey = key, language = lit ''eng''\<rparr> f
           = Inr (JObj kvs)"
    and "dict_get (JObj kvs) (lit ''IsErroredOnProcessing'') JNull = Inr v" and "\<not> truthy v"
    and "map_of kvs (lit ''ParsedResults'') = Some (JArr ress)" and "ress \<noteq> []"
    and "parsed_texts ress = Inr (map JStr texts)"
  shows "ocr_with_ocrspace e d p = concat texts"
  using assms ocr_result_success [of kvs v ress texts e]
  by (simp add: ocr_with_ocrspace_def ocr_try_def)

lemma endswith_unique:
  assumes "endswith s a" and "endswith s b" and "length a = length b"
  shows "a = b"
  using assms by (simp add: endswith_def)

lemma demo_txt_file: "files demo_txt_request (lit ''file'') = Some demo_txt_upload"
  by (simp add: demo_txt_request_def)

lemma demo_txt_name:
  "filename demo_txt_upload \<noteq> []" "\<not> endswith (filename demo_txt_upload) (lit ''.pdf'')"
  by (simp_all add: demo_txt_upload_def endswith_def lit_def)





lemma demo_payload_key: "OCR_SPACE_API_KEY demo_env = Some (lit ''K1'')" "lit ''K1'' \<noteq> []"
  by (simp_all add: demo_env_def lit_def)

lemma demo_saved_file: "demo_saved_disk (lit ''uploads/report.pdf'') = Some (File ''%PDF-1.4'')"
  by (simp add: demo_saved_disk_def)


section \<open>Properties of the upload pipeline\<close>












text \<open>
  Claim C5. Without the field \<^verbatim>\<open>file\<close> the answer is the error \<^verbatim>\<open>No file part\<close>; with an
  empty file name it is a JSON error (\<^verbatim>\<open>No selected file\<close>); with a file name that is not
  empty and does not end in \<^verbatim>\<open>.pdf\<close> it is the error
  \<^verbatim>\<open>Invalid file type. Please upload a PDF.\<close>. In all three cases nothing is extracted or
  summarized (no call is made) and the file system is untouched.
\<close>

theorem upload_rejections:
  "(files req (lit ''file'') = None \<longrightarrow>
      response (upload_file e req d) = Inr (JObj [(lit ''error'', JStr (lit ''No file part''))]) \<and>
      calls (upload_file e req d) = [] \<and> disk_after (upload_file e req d) = d) \<and>
   (files req (lit ''file'') = Some upl \<and> filename upl = [] \<longrightarrow>
      response (upload_file e req d) = Inr (JObj [(lit ''error'', JStr (lit ''No selected file''))]) \<and>
      calls (upload_file e req d) = [] \<and> disk_after (upload_file e req d) = d) \<and>
   (files req (lit ''file'') = Some upl \<and> filename upl \<noteq> [] \<and>
    \<not> endswith (filename upl) (lit ''.pdf'') \<longrightarrow>
      response (upload_file e req d) =
        Inr (JObj [(lit ''error'', JStr (lit ''Invalid file type. Please upload a PDF.''))]) \<and>
      calls (upload_file e req d) = [] \<and> disk_after (upload_file e req d) = d)"
  by (simp add: upload_file_def jsonify_def)

text \<open>One concrete request for each of the three cases.\<close>

theorem upload_rejections_witness:
  "(files \<lparr>files = Map.empty\<rparr> (lit ''file'') = None \<and>
    response (upload_file demo_env \<lparr>files = Map.empty\<rparr> demo_disk) =
      Inr (JObj [(lit ''error'', JStr (lit ''No file part''))]) \<and>
    calls (upload_file demo_env \<lparr>files = Map.empty\<rparr> demo_disk) = []) \<and>
   (files \<lparr>files = [lit ''file'' \<mapsto> \<lparr>filename = [], content = []\<rparr>]\<rparr> (lit ''file'') =
      Some \<lparr>filename = [], content = []\<rparr> \<and>
    filename \<lparr>filename = [], content = []\<rparr> = [] \<and>
    response (upload_file demo_env
        \<lparr>files = [lit ''file'' \<mapsto> \<lparr>filename = [], content = []\<rparr>]\<rparr> demo_disk) =
      Inr (JObj [(lit ''error'', JStr (lit ''No selected file''))]) \<and>
    calls (upload_file demo_env
        \<lparr>files = [lit ''file'' \<mapsto> \<lparr>filename = [], content = []\<rparr>]\<rparr> demo_disk) = []) \<and>
   (files demo_txt_request (lit ''file'') = Some demo_txt_upload \<and>
    filename demo_txt_upload \<noteq> [] \<and>
    \<not> endswith (filename demo_txt_upload) (lit ''.pdf'') \<and>
    response (upload_file demo_env demo_txt_request demo_disk) =
      Inr (JObj [(lit ''error'', JStr (lit ''Invalid file type. Please upload a PDF.''))]) \<and>
    calls (upload_file demo_env demo_txt_request demo_disk) = [])"
proof -
  let ?r1 = "\<lparr>files = Map.empty\<rparr> :: request"
  let ?u2 = "\<lparr>filename = [], content = []\<rparr> :: upload"
  let ?r2 = "\<lparr>files = [lit ''file'' \<mapsto> ?u2]\<rparr> :: request"
  have a: "files ?r1 (lit ''file'') = None" by simp
  have b: "files ?r2 (lit ''file'') = Some ?u2" "filename ?u2 = []" by simp_all
  show ?thesis
    using upload_rejections [where req = ?r1 and e = demo_env and d = demo_disk]
      upload_rejections [where req = ?r2 and upl = ?u2 and e = demo_env and d = demo_disk]
      upload_rejections [where req = demo_txt_request and upl = demo_txt_upload
        and e = demo_env and d = demo_disk]
      a b demo_txt_file demo_txt_name
    by simp
qed



text \<open>
  Claim C7. Both helpers return a string on every path; the exceptions of their
  \<^verbatim>\<open>try\<close> bodies are values of the model and all of them are caught.
  \<^item> \<open>ocr_with_ocrspace\<close> returns a string that starts with \<^verbatim>\<open>OCR.space Error:\<close>, unless
    the key is set, the file could be read, the service answered with a dict that is not
    flagged as errored and whose \<^verbatim>\<open>ParsedResults\<close> is a non-empty list of dicts with
    string \<^verbatim>\<open>ParsedText\<close>; then it returns the concatenation of those texts.
  \<^item> A missing key, any exception raised in the \<^verbatim>\<open>try\<close> body (network and HTTP failures,
    an unreadable file, a malformed response) and a response flagged as errored all give
    a string that starts with the marker.
  \<^item> \<open>summarize_with_ai\<close> returns a string that starts with \<^verbatim>\<open>Gemini Error:\<close> when the
    key is missing or the call raises, and the text of the model otherwise.
\<close>

theorem helpers_never_raise:
  "(startswith (ocr_with_ocrspace e d p) OCR_MARKER \<or>
    (\<exists>key f kvs v ress texts.
       OCR_SPACE_API_KEY e = Some key \<and> key \<noteq> [] \<and> d p = Some (File f) \<and>
       ocr_space e \<lparr>isOverlayRequired = False, apikey = key, language = lit ''eng''\<rparr> f
         = Inr (JObj kvs) \<and>
       dict_get (JObj kvs) (lit ''IsErroredOnProcessing'') JNull = Inr v \<and> \<not> truthy v \<and>
       map_of kvs (lit ''ParsedResults'') = Some (JArr ress) \<and> ress \<noteq> [] \<and>
       parsed_texts ress = Inr (map JStr texts) \<and>
       ocr_with_ocrspace e d p = concat texts)) \<and>
   (key_missing (OCR_SPACE_API_KEY e) \<longrightarrow> startswith (ocr_with_ocrspace e d p) OCR_MARKER) \<and>
   (OCR_SPACE_API_KEY e = Some k \<and> k \<noteq> [] \<and> ocr_try e k d p = Inl x \<longrightarrow>
      startswith (ocr_with_ocrspace e d p) OCR_MARKER) \<and>
   (OCR_SPACE_API_KEY e = Some k \<and> k \<noteq> [] \<and> d p = Some (File g) \<and>
    ocr_space e \<lparr>isOverlayRequired = False, apikey = k, language = lit ''eng''\<rparr> g = Inr result \<and>
    dict_get result (lit ''IsErroredOnProcessing'') JNull = Inr w \<and> truthy w \<longrightarrow>
      startswith (ocr_with_ocrspace e d p) OCR_MARKER) \<and>
   (OCR_SPACE_API_KEY e = Some k \<and> k \<noteq> [] \<and> d p = Some (File g) \<and>
    ocr_space e \<lparr>isOverlayRequired = False, apikey = k, language = lit ''eng''\<rparr> g
      = Inr (JObj kvs') \<and>
    dict_get (JObj kvs') (lit ''IsErroredOnProcessing'') JNull = Inr w \<and> \<not> truthy w \<and>
    map_of kvs' (lit ''ParsedResults'') = Some (JArr ress') \<and> ress' \<noteq> [] \<and>
    parsed_texts ress' = Inr (map JStr texts') \<longrightarrow>
      ocr_with_ocrspace e d p = concat texts') \<and>
   (key_missing (GEMINI_API_KEY e) \<longrightarrow> startswith (summarize_with_ai e t) GEMINI_MARKER) \<and>
   (\<not> key_missing (GEMINI_API_KEY e) \<and> gemini e (prompt t) = Inl y \<longrightarrow>
      startswith (summarize_with_ai e t) GEMINI_MARKER) \<and>
   (\<not> key_missing (GEMINI_API_KEY e) \<and> gemini e (prompt t) = Inr r \<longrightarrow>
      summarize_with_ai e t = r)"
proof (intro conjI impI)
  show "startswith (ocr_with_ocrspace e d p) OCR_MARKER \<or>
    (\<exists>key f kvs v ress texts.
       OCR_SPACE_API_KEY e = Some key \<and> key \<noteq> [] \<and> d p = Some (File f) \<and>
       ocr_space e \<lparr>isOverlayRequired = False, apikey = key, language = lit ''eng''\<rparr> f
         = Inr (JObj kvs) \<and>
       dict_get (JObj kvs) (lit ''IsErroredOnProcessing'') JNull = Inr v \<and> \<not> truthy v \<and>
       map_of kvs (lit ''ParsedResults'') = Some (JArr ress) \<and> ress \<noteq> [] \<and>
       parsed_texts ress = Inr (map JStr texts) \<and>
       ocr_with_ocrspace e d p = concat texts)"
    by (rule ocr_dichotomy)
next
  assume "key_missing (OCR_SPACE_API_KEY e)"
  then show "startswith (ocr_with_ocrspace e d p) OCR_MARKER"
    by (rule ocr_key_missing_marked)
next
  assume "OCR_SPACE_API_KEY e = Some k \<and> k \<noteq> [] \<and> ocr_try e k d p = Inl x"
  then show "startswith (ocr_with_ocrspace e d p) OCR_MARKER"
    using ocr_raises_marked by blast
next
  assume "OCR_SPACE_API_KEY e = Some k \<and> k \<noteq> [] \<and> d p = Some (File g) \<and>
    ocr_space e \<lparr>isOverlayRequired = False, apikey = k, language = lit ''eng''\<rparr> g = Inr result \<and>
    dict_get result (lit ''IsErroredOnProcessing'') JNull = Inr w \<and> truthy w"
  then show "startswith (ocr_with_ocrspace e d p) OCR_MARKER"
    using ocr_errored_marked by blast
next
  assume "OCR_SPACE_API_KEY e = Some k \<and> k \<noteq> [] \<and> d p = Some (File g) \<and>
    ocr_space e \<lparr>isOverlayRequired = False, apikey = k, language = lit ''eng''\<rparr> g
      = Inr (JObj kvs') \<and>
    dict_get (JObj kvs') (lit ''IsErroredOnProcessing'') JNull = Inr w \<and> \<not> truthy w \<and>
    map_of kvs' (lit ''ParsedResults'') = Some (JArr ress') \<and> ress' \<noteq> [] \<and>
    parsed_texts ress' = Inr (map JStr texts')"
  then show "ocr_with_ocrspace e d p = concat texts'"
    using ocr_success_text by blast
next
  assume "key_missing (GEMINI_API_KEY e)"
  then show "startswith (summarize_with_ai e t) GEMINI_MARKER"
    by (simp add: summarize_with_ai_def gemini_messages_marked)
next
  assume "\<not> key_missing (GEMINI_API_KEY e) \<and> gemini e (prompt t) = Inl y"
  then show "startswith (summarize_with_ai e t) GEMINI_MARKER"
    by (simp add: summarize_with_ai_def gemini_messages_marked startswith_extend)
next
  assume "\<not> key_missing (GEMINI_API_KEY e) \<and> gemini e (prompt t) = Inr r"
  then show "summarize_with_ai e t = r"
    by (simp add: summarize_with_ai_def)
qed

text \<open>
  One concrete outside world for each path: no OCR key, a request that times out, a
  response flagged as errored, a parsed response; an empty Gemini key, a Gemini call that
  raises, a Gemini call that answers.
\<close>

theorem helpers_never_raise_witness:
  "key_missing (OCR_SPACE_API_KEY (demo_env\<lparr>OCR_SPACE_API_KEY := None\<rparr>)) \<and>
   startswith (ocr_with_ocrspace (demo_env\<lparr>OCR_SPACE_API_KEY := None\<rparr>) demo_saved_disk
      (lit ''uploads/report.pdf'')) OCR_MARKER \<and>
   ocr_try (demo_env\<lparr>ocr_space := (\<lambda>pl f. Inl (Raised RequestException (lit ''timed out'')))\<rparr>)
      (lit ''K1'') demo_saved_disk (lit ''uploads/report.pdf'')
     = Inl (Raised RequestException (lit ''timed out'')) \<and>
   startswith (ocr_with_ocrspace
      (demo_env\<lparr>ocr_space := (\<lambda>pl f. Inl (Raised RequestException (lit ''timed out'')))\<rparr>)
      demo_saved_disk (lit ''uploads/report.pdf'')) OCR_MARKER \<and>
   dict_get (JObj [(lit ''IsErroredOnProcessing'', JBool True),
                   (lit ''ErrorMessage'', JArr [JStr (lit ''Unable to read the file'')])])
      (lit ''IsErroredOnProcessing'') JNull = Inr (JBool True) \<and>
   truthy (JBool True) \<and>
   startswith (ocr_with_ocrspace
      (demo_env\<lparr>ocr_space := (\<lambda>pl f. Inr (JObj [(lit ''IsErroredOnProcessing'', JBool True),
          (lit ''ErrorMessage'', JArr [JStr (lit ''Unable to read the file'')])]))\<rparr>)
      demo_saved_disk (lit ''uploads/report.pdf'')) OCR_MARKER \<and>
   parsed_texts [JObj [(lit ''ParsedText'', JStr demo_report)]] = Inr (map JStr [demo_report]) \<and>
   ocr_with_ocrspace demo_env demo_saved_disk (lit ''uploads/report.pdf'') = demo_report \<and>
   key_missing (GEMINI_API_KEY (demo_env\<lparr>GEMINI_API_KEY := Some []\<rparr>)) \<and>
   startswith (summarize_with_ai (demo_env\<lparr>GEMINI_API_KEY := Some []\<rparr>) demo_report)
      GEMINI_MARKER \<and>
   gemini (demo_env\<lparr>gemini := (\<lambda>p. Inl (Raised OtherException (lit ''quota exceeded'')))\<rparr>)
      (prompt demo_report) = Inl (Raised OtherException (lit ''quota exceeded'')) \<and>
   startswith (summarize_with_ai
      (demo_env\<lparr>gemini := (\<lambda>p. Inl (Raised OtherException (lit ''quota exceeded'')))\<rparr>)
      demo_report) GEMINI_MARKER \<and>
   gemini demo_env (prompt demo_report) = Inr (lit ''Hemoglobin is low.'') \<and>
   summarize_with_ai demo_env demo_report = lit ''Hemoglobin is low.''"
proof -
  let ?p = "lit ''uploads/report.pdf''"
  let ?pl = "\<lparr>isOverlayRequired = False, apikey = lit ''K1'', language = lit ''eng''\<rparr>"
  let ?e1 = "demo_env\<lparr>OCR_SPACE_API_KEY := None\<rparr>"
  let ?x = "Raised RequestException (lit ''timed out'')"
  let ?e2 = "demo_env\<lparr>ocr_space := (\<lambda>pl f. Inl ?x)\<rparr>"
  let ?bad = "JObj [(lit ''IsErroredOnProcessing'', JBool True),
                    (lit ''ErrorMessage'', JArr [JStr (lit ''Unable to read the file'')])]"
  let ?e3 = "demo_env\<lparr>ocr_space := (\<lambda>pl f. Inr ?bad)\<rparr>"
  let ?kvs = "[(lit ''ParsedResults'', JArr [JObj [(lit ''ParsedText'', JStr demo_report)]])]"
  let ?e4 = "demo_env\<lparr>GEMINI_API_KEY := Some []\<rparr>"
  let ?y = "Raised OtherException (lit ''quota exceeded'')"
  let ?e5 = "demo_env\<lparr>gemini := (\<lambda>p. Inl ?y)\<rparr>"
  have a1: "key_missing (OCR_SPACE_API_KEY ?e1)" by (simp add: key_missing_def)
  have k2: "OCR_SPACE_API_KEY ?e2 = Some (lit ''K1'')" by (simp add: demo_env_def)
  have a2: "ocr_try ?e2 (lit ''K1'') demo_saved_disk ?p = Inl ?x"
    by (simp add: ocr_try_def demo_saved_file)
  have k3: "OCR_SPACE_API_KEY ?e3 = Some (lit ''K1'')" by (simp add: demo_env_def)
  have o3: "ocr_space ?e3 ?pl ''%PDF-1.4'' = Inr ?bad" by simp
  have a3: "dict_get ?bad (lit ''IsErroredOnProcessing'') JNull = Inr (JBool True)"
    by simp
  have t3: "truthy (JBool True)" by simp
  have o4: "ocr_space demo_env ?pl ''%PDF-1.4'' = Inr (JObj ?kvs)"
    by (simp add: demo_env_def)
  have g4: "dict_get (JObj ?kvs) (lit ''IsErroredOnProcessing'') JNull = Inr JNull"
    by (simp add: lit_def)
  have n4: "\<not> truthy JNull" by simp
  have m4: "map_of ?kvs (lit ''ParsedResults'') =
              Some (JArr [JObj [(lit ''ParsedText'', JStr demo_report)]])"
    by simp
  have ne4: "[JObj [(lit ''ParsedText'', JStr demo_report)]] \<noteq> []" by simp
  have p4: "parsed_texts [JObj [(lit ''ParsedText'', JStr demo_report)]] =
              Inr (map JStr [demo_report])"
    by simp
  have a5: "key_missing (GEMINI_API_KEY ?e4)" by (simp add: key_missing_def)
  have k6: "\<not> key_missing (GEMINI_API_KEY ?e5)"
    by (simp add: key_missing_def demo_env_def lit_def)
  have a6: "gemini ?e5 (prompt demo_report) = Inl ?y" by simp
  have k7: "\<not> key_missing (GEMINI_API_KEY demo_env)"
    by (simp add: key_missing_def demo_env_def lit_def)
  have a7: "gemini demo_env (prompt demo_report) = Inr (lit ''Hemoglobin is low.'')"
    by (simp add: demo_env_def)
  note T = helpers_never_raise
  have c1: "startswith (ocr_with_ocrspace ?e1 demo_saved_disk ?p) OCR_MARKER"
    using T [where e = ?e1 and d = demo_saved_disk and p = ?p] a1 by blast
  have c2: "startswith (ocr_with_ocrspace ?e2 demo_saved_disk ?p) OCR_MARKER"
    using T [where e = ?e2 and d = demo_saved_disk and p = ?p and k = "lit ''K1''" and x = ?x]
      k2 demo_payload_key(2) a2 by blast
  have c3: "startswith (ocr_with_ocrspace ?e3 demo_saved_disk ?p) OCR_MARKER"
    using T [where e = ?e3 and d = demo_saved_disk and p = ?p and k = "lit ''K1''"
        and g = "''%PDF-1.4''" and result = ?bad and w = "JBool True"]
      k3 demo_payload_key(2) demo_saved_file o3 a3 t3 by blast
  have c4: "ocr_with_ocrspace demo_env demo_saved_disk ?p = concat [demo_report]"
    using T [where e = demo_env and d = demo_saved_disk and p = ?p and k = "lit ''K1''"
        and g = "''%PDF-1.4''" and kvs' = ?kvs and w = JNull
        and ress' = "[JObj [(lit ''ParsedText'', JStr demo_report)]]"
        and texts' = "[demo_report]"]
      demo_payload_key demo_saved_file o4 g4 n4 m4 ne4 p4 by blast
  have c5: "startswith (summarize_with_ai ?e4 demo_report) GEMINI_MARKER"
    using T [where e = ?e4 and t = demo_report] a5 by blast
  have c6: "startswith (summarize_with_ai ?e5 demo_report) GEMINI_MARKER"
    using T [where e = ?e5 and t = demo_report and y = ?y] k6 a6 by blast
  have c7: "summarize_with_ai demo_env demo_report = lit ''Hemoglobin is low.''"
    using T [where e = demo_env and t = demo_report and r = "lit ''Hemoglobin is low.''"]
      k7 a7 by blast
  from c4 have c4': "ocr_with_ocrspace demo_env demo_saved_disk ?p = demo_report" by simp
  show ?thesis
    by (intro conjI a1 c1 a2 c2 a3 t3 c3 p4 c4' a5 c5 a6 c6 a7 c7)
qed

text \<open>
  Claim C8. The extension test is case-sensitive: a file name that ends in a spelling of
  \<^verbatim>\<open>.pdf\<close> with at least one upper-case letter is answered with the invalid-file-type
  error, no call is made and the file system is untouched.
\<close>

theorem pdf_extension_case_sensitive:
  assumes "files req (lit ''file'') = Some upl"
    and "endswith (filename upl) ext"
    and "map ascii_lower ext = lit ''.pdf''"
    and "ext \<noteq> lit ''.pdf''"
  shows "response (upload_file e req d) =
           Inr (JObj [(lit ''error'', JStr (lit ''Invalid file type. Please upload a PDF.''))]) \<and>
         calls (upload_file e req d) = [] \<and> disk_after (upload_file e req d) = d"
proof -
  from assms(3) have len: "length ext = length (lit ''.pdf'')"
    by (metis length_map)
  then have "ext \<noteq> []" by (auto simp: lit_def)
  with assms(2) have ne: "filename upl \<noteq> []" by (auto simp: endswith_def)
  from assms(2,4) len have "\<not> endswith (filename upl) (lit ''.pdf'')"
    using endswith_unique by blast
  with assms(1) ne show ?thesis by (simp add: upload_file_def jsonify_def)
qed

text \<open>At the upload \<^verbatim>\<open>report.PDF\<close>.\<close>

theorem pdf_extension_case_sensitive_witness:
  "files demo_upper_request (lit ''file'') = Some demo_upper_upload \<and>
   endswith (filename demo_upper_upload) (lit ''.PDF'') \<and>
   map ascii_lower (lit ''.PDF'') = lit ''.pdf'' \<and>
   lit ''.PDF'' \<noteq> lit ''.pdf'' \<and>
   response (upload_file demo_env demo_upper_request demo_disk) =
     Inr (JObj [(lit ''error'', JStr (lit ''Invalid file type. Please upload a PDF.''))]) \<and>
   calls (upload_file demo_env demo_upper_request demo_disk) = [] \<and>
   disk_after (upload_file demo_env demo_upper_request demo_disk) = demo_disk"
proof -
  have 1: "files demo_upper_request (lit ''file'') = Some demo_upper_upload"
    by (simp add: demo_upper_request_def)
  have 2: "endswith (filename demo_upper_upload) (lit ''.PDF'')"
    by (simp add: demo_upper_upload_def endswith_def lit_def)
  have 3: "map ascii_lower (lit ''.PDF'') = lit ''.pdf''"
    by (simp add: ascii_lower_def lit_def)
  have 4: "lit ''.PDF'' \<noteq> lit ''.pdf''"
    by (simp add: lit_def)
  from pdf_extension_case_sensitive [OF 1 2 3 4, of demo_env demo_disk] 1 2 3 4
  show ?thesis by simp
qed





end
